theory Spec2Isabelle
  imports Main "HOL-Library.Sublist"
begin

section \<open>Tables\<close>

text \<open>
  The program keeps its data in pandas frames. A frame is modelled by its ordered column
  labels and its rows; a row is the list of its cells, aligned with the labels. A cell is
  a null marker (pandas \<open>NaN\<close>), a text or a number. Column dtypes, and the coercions
  pandas performs between them, are not part of the model.
\<close>

datatype cell = Null | Str string | Num int

record DataFrame =
  columns :: "string list"
  rows :: "cell list list"

text \<open>\<^verbatim>\<open>pd.DataFrame()\<close>: no column, no row.\<close>

definition DataFrame_empty :: DataFrame where
  "DataFrame_empty = \<lparr>columns = [], rows = []\<rparr>"

text \<open>The attribute \<^verbatim>\<open>.empty\<close>: true as soon as one of the two axes has length zero.\<close>

definition df_empty :: "DataFrame \<Rightarrow> bool" where
  "df_empty df \<longleftrightarrow> columns df = [] \<or> rows df = []"

text \<open>
  The frames the readers return have unique labels (pandas renames a repeated header
  \<open>X\<close> to \<open>X.1\<close>) and rows as wide as the header.
\<close>

definition aligned :: "DataFrame \<Rightarrow> bool" where
  "aligned df \<longleftrightarrow> list_all (\<lambda>r. length r = length (columns df)) (rows df)"

definition well_formed :: "DataFrame \<Rightarrow> bool" where
  "well_formed df \<longleftrightarrow> distinct (columns df) \<and> aligned df"

text \<open>The cell of row \<open>r\<close> under label \<open>c\<close>, for a row laid out along \<open>cols\<close>; null when the label is absent.\<close>

definition get_cell :: "string list \<Rightarrow> cell list \<Rightarrow> string \<Rightarrow> cell" where
  "get_cell cols r c = (case map_of (zip cols r) c of Some v \<Rightarrow> v | None \<Rightarrow> Null)"

text \<open>The column of a frame under a label, top to bottom.\<close>

definition column :: "DataFrame \<Rightarrow> string \<Rightarrow> cell list" where
  "column df c = map (\<lambda>r. get_cell (columns df) r c) (rows df)"

text \<open>
  \<^verbatim>\<open>df[c] = v\<close> with a scalar \<open>v\<close>: an existing column \<open>c\<close> keeps its position and has
  every cell replaced; otherwise a new column is appended on the right.
\<close>

definition setitem :: "DataFrame \<Rightarrow> string \<Rightarrow> cell \<Rightarrow> DataFrame" where
  "setitem df c v =
     (if c \<in> set (columns df)
      then df\<lparr>rows := map (\<lambda>r. map2 (\<lambda>k x. if k = c then v else x) (columns df) r) (rows df)\<rparr>
      else \<lparr>columns = columns df @ [c], rows = map (\<lambda>r. r @ [v]) (rows df)\<rparr>)"

text \<open>A row laid out along \<open>old\<close>, laid out again along \<open>new\<close>; labels it lacks are null.\<close>

definition reindex :: "string list \<Rightarrow> string list \<Rightarrow> cell list \<Rightarrow> cell list" where
  "reindex new old r = map (get_cell old r) new"

text \<open>
  \<^verbatim>\<open>pd.concat([a, b], ignore_index=True)\<close> (outer join, \<open>sort=False\<close>, the default since
  pandas 1.0): the labels of \<open>a\<close> in their order, then the labels only \<open>b\<close> has, in
  \<open>b\<close>'s order; the rows of \<open>a\<close>, then those of \<open>b\<close>.
\<close>

definition pd_concat :: "DataFrame \<Rightarrow> DataFrame \<Rightarrow> DataFrame" where
  "pd_concat a b =
     (let cols = columns a @ filter (\<lambda>c. c \<notin> set (columns a)) (columns b)
      in \<lparr>columns = cols,
          rows = map (reindex cols (columns a)) (rows a) @ map (reindex cols (columns b)) (rows b)\<rparr>)"

text \<open>
  Two frames that differ at most in what they hold under the label \<open>c\<close>: both have the column
  or both lack it, and they are equal once it is blanked in both.
\<close>

definition same_but_for :: "string \<Rightarrow> DataFrame \<Rightarrow> DataFrame \<Rightarrow> bool" where
  "same_but_for c a b \<longleftrightarrow>
     (c \<in> set (columns a)) = (c \<in> set (columns b)) \<and> setitem a c Null = setitem b c Null"

section \<open>Files, readers and what the page shows\<close>

record UploadedFile =
  name :: string
  content :: string

text \<open>
  What a reader raises: a \<open>ValueError\<close> (pandas' parser errors are subclasses of it) or any
  other \<open>Exception\<close>, each with its text \<open>str(e)\<close>.
\<close>

datatype py_exception = ValueError string | Exception string

text \<open>
  \<^verbatim>\<open>pd.read_csv(file)\<close> and \<^verbatim>\<open>pd.read_excel(file, sheet_name=...)\<close> belong to pandas; the
  functions below take them as parameters. \<open>None\<close> as sheet is the default, the first sheet.
\<close>

type_synonym csv_reader = "UploadedFile \<Rightarrow> py_exception + DataFrame"
type_synonym excel_reader = "UploadedFile \<Rightarrow> string option \<Rightarrow> py_exception + DataFrame"

text \<open>The calls to streamlit that the modelled code makes, in the order it makes them.\<close>

datatype ui =
    st_error string
  | st_warning string
  | st_write string
  | st_dataframe DataFrame
  | st_download_button string DataFrame string

section \<open>\<open>consolidate_files\<close>\<close>

text \<open>The two \<^verbatim>\<open>except\<close> clauses of \<open>consolidate_files\<close>.\<close>

fun files_except :: "UploadedFile \<Rightarrow> py_exception \<Rightarrow> ui" where
  "files_except uploaded_file (ValueError e) =
     st_error (''Error processing '' @ name uploaded_file @ '': '' @ e)"
| "files_except uploaded_file (Exception e) =
     st_error (''Unexpected error with file '' @ name uploaded_file @ '': '' @ e)"

text \<open>
  One iteration of the loop over \<open>file_list\<close>: the \<^verbatim>\<open>try\<close> statement. What can raise
  inside it is the read: setting a column and concatenating do not raise on the frames the
  readers return. Either \<^verbatim>\<open>except\<close> clause reports and lets the loop go on; \<open>Exception\<close>
  covers all a read raises.
\<close>

definition files_body ::
  "csv_reader \<Rightarrow> excel_reader \<Rightarrow> string \<Rightarrow> UploadedFile \<Rightarrow> DataFrame \<times> ui list \<Rightarrow> DataFrame \<times> ui list" where
  "files_body read_csv read_excel file_type uploaded_file st =
     (case st of (consolidated_data, out) \<Rightarrow>
        if file_type = ''csv'' then
          (case read_csv uploaded_file of
             Inr df \<Rightarrow>
               (pd_concat consolidated_data (setitem df ''Filename'' (Str (name uploaded_file))), out)
           | Inl e \<Rightarrow> (consolidated_data, out @ [files_except uploaded_file e]))
        else if file_type = ''excel'' then
          (case read_excel uploaded_file None of
             Inr df \<Rightarrow>
               (pd_concat consolidated_data (setitem df ''Filename'' (Str (name uploaded_file))), out)
           | Inl e \<Rightarrow> (consolidated_data, out @ [files_except uploaded_file e]))
        else (consolidated_data, out))"

fun files_loop ::
  "csv_reader \<Rightarrow> excel_reader \<Rightarrow> string \<Rightarrow> UploadedFile list \<Rightarrow> DataFrame \<times> ui list \<Rightarrow> DataFrame \<times> ui list" where
  "files_loop read_csv read_excel file_type [] st = st"
| "files_loop read_csv read_excel file_type (uploaded_file # rest) st =
     files_loop read_csv read_excel file_type rest
       (files_body read_csv read_excel file_type uploaded_file st)"

definition consolidate_files ::
  "csv_reader \<Rightarrow> excel_reader \<Rightarrow> UploadedFile list \<Rightarrow> string \<Rightarrow> DataFrame \<times> ui list" where
  "consolidate_files read_csv read_excel file_list file_type =
     files_loop read_csv read_excel file_type file_list (DataFrame_empty, [])"

text \<open>
  Lines 153 to 169 and 204 to 218 of the page script: what is shown once a consolidated
  frame is there. An empty frame gives the warning and nothing else; otherwise the frame is
  displayed and offered for download, written by \<^verbatim>\<open>to_excel(writer, index=False)\<close>. The second
  field of the download button is the frame handed to \<open>to_excel\<close>; the bytes that xlsxwriter
  makes of it are outside the model.
\<close>

definition show_result :: "string \<Rightarrow> string \<Rightarrow> DataFrame \<Rightarrow> ui list" where
  "show_result title output_file_name consolidated_data =
     (if \<not> df_empty consolidated_data
      then [st_write title, st_dataframe consolidated_data,
            st_download_button ''Download Consolidated File'' consolidated_data
              (output_file_name @ ''.xlsx'')]
      else [st_warning ''No data to display after consolidation.''])"

text \<open>A number as the f-string of line 149 writes it, in decimal.\<close>

fun str_nat :: "nat \<Rightarrow> string" where
  "str_nat n =
     (if n < 10 then [''0123456789'' ! n]
      else str_nat (n div 10) @ [''0123456789'' ! (n mod 10)])"

declare str_nat.simps [simp del]

text \<open>Line 149, the first thing shown once there is an upload.\<close>

definition total_uploaded :: "UploadedFile list \<Rightarrow> ui" where
  "total_uploaded uploaded_files =
     st_write (''Total uploaded files: '' @ str_nat (length uploaded_files))"

text \<open>
  Lines 148 to 169, for the consolidation type \<open>Consolidate data from files\<close>. The guard of
  line 148 comes first: with no upload the page runs nothing of this and shows nothing.
\<close>

definition file_mode ::
  "csv_reader \<Rightarrow> excel_reader \<Rightarrow> string \<Rightarrow> UploadedFile list \<Rightarrow> string \<Rightarrow> ui list" where
  "file_mode read_csv read_excel output_file_name uploaded_files file_type =
     (if uploaded_files = [] then []
      else total_uploaded uploaded_files #
        (case consolidate_files read_csv read_excel uploaded_files file_type of
           (consolidated_data, out) \<Rightarrow>
             out @ show_result ''Consolidated Data from Files:'' output_file_name
                     consolidated_data))"

section \<open>\<open>consolidate_sheets\<close>\<close>

text \<open>The dictionary \<open>selected_sheets\<close>: file name to the list of sheet names selected in it.\<close>

type_synonym selection = "string \<rightharpoonup> string list"

text \<open>The two \<^verbatim>\<open>except\<close> clauses of \<open>consolidate_sheets\<close>.\<close>

fun sheets_except :: "UploadedFile \<Rightarrow> py_exception \<Rightarrow> ui" where
  "sheets_except uploaded_file (ValueError e) =
     st_error (''Error processing sheet in '' @ name uploaded_file @ '': '' @ e)"
| "sheets_except uploaded_file (Exception e) =
     st_error (''Unexpected error with file '' @ name uploaded_file @ '': '' @ e)"

text \<open>Lines 95 and 96: the frame of a sheet gets its two provenance columns.\<close>

definition tagged_sheet :: "DataFrame \<Rightarrow> UploadedFile \<Rightarrow> string \<Rightarrow> DataFrame" where
  "tagged_sheet sheet_df uploaded_file sheet =
     setitem (setitem sheet_df ''Filename'' (Str (name uploaded_file))) ''Sheet Name'' (Str sheet)"

text \<open>
  The loop over the sheets selected in one file. It runs inside the \<^verbatim>\<open>try\<close>, so the first
  read that raises ends it: it returns the frame accumulated up to there, and the exception.
\<close>

fun sheets_inner ::
  "excel_reader \<Rightarrow> UploadedFile \<Rightarrow> string list \<Rightarrow> DataFrame \<Rightarrow> DataFrame \<times> py_exception option" where
  "sheets_inner read_excel uploaded_file [] consolidated_data = (consolidated_data, None)"
| "sheets_inner read_excel uploaded_file (sheet # rest) consolidated_data =
     (case read_excel uploaded_file (Some sheet) of
        Inl e \<Rightarrow> (consolidated_data, Some e)
      | Inr sheet_df \<Rightarrow>
          sheets_inner read_excel uploaded_file rest
            (pd_concat consolidated_data (tagged_sheet sheet_df uploaded_file sheet)))"

text \<open>One iteration of the loop over \<open>file_list\<close>: the \<^verbatim>\<open>try\<close> statement.\<close>

definition sheets_body ::
  "excel_reader \<Rightarrow> selection \<Rightarrow> UploadedFile \<Rightarrow> DataFrame \<times> ui list \<Rightarrow> DataFrame \<times> ui list" where
  "sheets_body read_excel selected_sheets uploaded_file st =
     (case st of (consolidated_data, out) \<Rightarrow>
        (case selected_sheets (name uploaded_file) of
           None \<Rightarrow> (consolidated_data, out)
         | Some sheets \<Rightarrow>
             (case sheets_inner read_excel uploaded_file sheets consolidated_data of
                (consolidated_data', None) \<Rightarrow> (consolidated_data', out)
              | (consolidated_data', Some e) \<Rightarrow>
                  (consolidated_data', out @ [sheets_except uploaded_file e]))))"

fun sheets_loop ::
  "excel_reader \<Rightarrow> selection \<Rightarrow> UploadedFile list \<Rightarrow> DataFrame \<times> ui list \<Rightarrow> DataFrame \<times> ui list" where
  "sheets_loop read_excel selected_sheets [] st = st"
| "sheets_loop read_excel selected_sheets (uploaded_file # rest) st =
     sheets_loop read_excel selected_sheets rest
       (sheets_body read_excel selected_sheets uploaded_file st)"

definition consolidate_sheets ::
  "excel_reader \<Rightarrow> UploadedFile list \<Rightarrow> selection \<Rightarrow> DataFrame \<times> ui list" where
  "consolidate_sheets read_excel file_list selected_sheets =
     sheets_loop read_excel selected_sheets file_list (DataFrame_empty, [])"

section \<open>Selecting sheets: by hand and by search\<close>

text \<open>
  \<^verbatim>\<open>str.lower()\<close>, on the ASCII letters; the names and the search term are taken to be ASCII.
\<close>

definition lower_char :: "char \<Rightarrow> char" where
  "lower_char c =
     (case map_of (zip ''ABCDEFGHIJKLMNOPQRSTUVWXYZ'' ''abcdefghijklmnopqrstuvwxyz'') c of
        Some l \<Rightarrow> l
      | None \<Rightarrow> c)"

definition lower :: "string \<Rightarrow> string" where
  "lower s = map lower_char s"

text \<open>
  Line 186, the list comprehension \<open>filtered_sheets\<close>. Python's \<^verbatim>\<open>a in b\<close> on strings holds
  when \<open>a\<close> occurs in \<open>b\<close> as a contiguous piece.
\<close>

definition filtered_sheets :: "string \<Rightarrow> string list \<Rightarrow> string list" where
  "filtered_sheets search_term sheet_names =
     filter (\<lambda>sheet. sublist (lower search_term) (lower sheet)) sheet_names"

text \<open>
  Lines 179 to 190, the loop over the uploaded files. \<^verbatim>\<open>pd.ExcelFile(file).sheet_names\<close> is
  the parameter \<open>sheet_names_of\<close>; nothing catches what it raises, which ends the run. The
  widget \<^verbatim>\<open>st.multiselect\<close> is the parameter \<open>multiselect\<close>: from the file's name, the options
  and the default it gives the list the user has picked.
\<close>

text \<open>\<^verbatim>\<open>selected_sheets.get(name, [])\<close>: the list kept for a file, empty when there is none.\<close>

definition sheets_of :: "selection \<Rightarrow> string \<Rightarrow> string list" where
  "sheets_of selected_sheets filename =
     (case selected_sheets filename of Some sheets \<Rightarrow> sheets | None \<Rightarrow> [])"

type_synonym sheet_lister = "UploadedFile \<Rightarrow> py_exception + string list"
type_synonym picker = "string \<Rightarrow> string list \<Rightarrow> string list \<Rightarrow> string list"

fun scan_files ::
  "sheet_lister \<Rightarrow> picker \<Rightarrow> string \<Rightarrow> UploadedFile list \<Rightarrow>
   selection \<times> (string \<times> string) list \<Rightarrow> py_exception + selection \<times> (string \<times> string) list" where
  "scan_files sheet_names_of multiselect search_term [] st = Inr st"
| "scan_files sheet_names_of multiselect search_term (file # rest) st =
     (case st of (selected_sheets, global_matching_sheets) \<Rightarrow>
        (case sheet_names_of file of
           Inl e \<Rightarrow> Inl e
         | Inr sheet_names \<Rightarrow>
             scan_files sheet_names_of multiselect search_term rest
               (selected_sheets(name file \<mapsto>
                  multiselect (name file) sheet_names (sheets_of selected_sheets (name file))),
                global_matching_sheets @
                  map (\<lambda>sheet. (name file, sheet)) (filtered_sheets search_term sheet_names))))"

text \<open>
  Lines 195 to 198: every matching pair is appended to the list of its file, which is
  created empty first when the file has none.
\<close>

fun auto_select :: "(string \<times> string) list \<Rightarrow> selection \<Rightarrow> selection" where
  "auto_select [] selected_sheets = selected_sheets"
| "auto_select ((filename, sheet_name) # rest) selected_sheets =
     auto_select rest
       (case selected_sheets filename of
          None \<Rightarrow> selected_sheets(filename \<mapsto> [] @ [sheet_name])
        | Some sheets \<Rightarrow> selected_sheets(filename \<mapsto> sheets @ [sheet_name]))"

text \<open>Line 193, the gate in front of that loop: a search term and at least one match.\<close>

definition merge_selected :: "string \<Rightarrow> (string \<times> string) list \<Rightarrow> selection \<Rightarrow> selection" where
  "merge_selected search_term global_matching_sheets selected_sheets =
     (if search_term \<noteq> [] \<and> global_matching_sheets \<noteq> []
      then auto_select global_matching_sheets selected_sheets
      else selected_sheets)"

text \<open>
  Line 201, the dictionary comprehension \<open>mapped_sheets\<close>: the uploaded files whose list is
  there and not empty.
\<close>

definition mapped_sheets :: "UploadedFile list \<Rightarrow> selection \<Rightarrow> selection" where
  "mapped_sheets uploaded_files selected_sheets =
     foldl (\<lambda>m file.
        case selected_sheets (name file) of
          None \<Rightarrow> m
        | Some [] \<Rightarrow> m
        | Some (sheet # sheets) \<Rightarrow> m(name file \<mapsto> sheet # sheets)) Map.empty uploaded_files"

text \<open>
  Lines 148, 149 and 173 to 218, for the consolidation type \<open>Consolidate data from sheets\<close> and
  the file type \<open>excel\<close>: the selection kept in the session comes in, and goes out as the code
  has changed it, with what the page shows. With no upload nothing runs.
\<close>

definition sheet_mode ::
  "sheet_lister \<Rightarrow> picker \<Rightarrow> excel_reader \<Rightarrow> string \<Rightarrow> string \<Rightarrow> UploadedFile list \<Rightarrow> selection \<Rightarrow>
   py_exception + selection \<times> ui list" where
  "sheet_mode sheet_names_of multiselect read_excel search_term output_file_name uploaded_files session =
     (if uploaded_files = [] then Inr (session, []) else
      case scan_files sheet_names_of multiselect search_term uploaded_files (session, []) of
        Inl e \<Rightarrow> Inl e
      | Inr (selected_sheets, global_matching_sheets) \<Rightarrow>
          (let selected_sheets' = merge_selected search_term global_matching_sheets selected_sheets;
               announce =
                 (if search_term \<noteq> [] \<and> global_matching_sheets \<noteq> []
                  then [st_write (''Automatically consolidating sheets matching '' @ [CHR 0x27] @
                          search_term @ [CHR 0x27] @ '' across all files:'')]
                  else [])
           in case consolidate_sheets read_excel uploaded_files
                     (mapped_sheets uploaded_files selected_sheets') of
                (consolidated_data, out) \<Rightarrow>
                  Inr (selected_sheets',
                       total_uploaded uploaded_files # announce @ out @
                         show_result ''Consolidated Data from Sheets:'' output_file_name
                           consolidated_data)))"

section \<open>Runs in which every read succeeds\<close>

text \<open>
  Every file of the list is read without error, with the file type \<open>csv\<close> or \<open>excel\<close>, as the
  frame \<open>table_of\<close> gives for it, and that frame is aligned.
\<close>

definition files_read_as ::
  "csv_reader \<Rightarrow> excel_reader \<Rightarrow> string \<Rightarrow> UploadedFile list \<Rightarrow> (UploadedFile \<Rightarrow> DataFrame) \<Rightarrow> bool" where
  "files_read_as read_csv read_excel file_type file_list table_of \<longleftrightarrow>
     (file_type = ''csv'' \<or> file_type = ''excel'') \<and>
     list_all (\<lambda>f. (if file_type = ''csv'' then read_csv f else read_excel f None) = Inr (table_of f)
                  \<and> aligned (table_of f)) file_list"

text \<open>
  Every sheet selected in a file of the list is read without error, as the frame \<open>sheet_of\<close>
  gives for the file and the sheet, and that frame is aligned.
\<close>

definition sheets_read_as ::
  "excel_reader \<Rightarrow> selection \<Rightarrow> UploadedFile list \<Rightarrow> (UploadedFile \<Rightarrow> string \<Rightarrow> DataFrame) \<Rightarrow> bool" where
  "sheets_read_as read_excel selected_sheets file_list sheet_of \<longleftrightarrow>
     list_all (\<lambda>f. list_all (\<lambda>s. read_excel f (Some s) = Inr (sheet_of f s) \<and> aligned (sheet_of f s))
                         (sheets_of selected_sheets (name f))) file_list"

section \<open>Example inputs\<close>

definition f1_csv :: UploadedFile where
  "f1_csv = \<lparr>name = ''f1.csv'', content = ''X,Y 1,2 3,4''\<rparr>"

definition f2_csv :: UploadedFile where
  "f2_csv = \<lparr>name = ''f2.csv'', content = ''X,Z 5,6''\<rparr>"

definition bad_csv :: UploadedFile where
  "bad_csv = \<lparr>name = ''bad.csv'', content = []\<rparr>"

definition tagged_csv :: UploadedFile where
  "tagged_csv = \<lparr>name = ''t.csv'', content = ''Filename,Sheet Name,X old,tab,7''\<rparr>"

definition f1_table :: DataFrame where
  "f1_table = \<lparr>columns = [''X'', ''Y''], rows = [[Num 1, Num 2], [Num 3, Num 4]]\<rparr>"

definition f2_table :: DataFrame where
  "f2_table = \<lparr>columns = [''X'', ''Z''], rows = [[Num 5, Num 6]]\<rparr>"

definition tagged_table :: DataFrame where
  "tagged_table = \<lparr>columns = [''Filename'', ''Sheet Name'', ''X''],
                   rows = [[Str ''old'', Str ''tab'', Num 7]]\<rparr>"

text \<open>
  What \<open>read_csv\<close> gives on these files (line breaks are written as blanks in \<open>content\<close>); on
  an empty file pandas raises \<open>EmptyDataError\<close>, a \<open>ValueError\<close>.
\<close>

definition example_read_csv :: csv_reader where
  "example_read_csv f =
     (if f = f1_csv then Inr f1_table
      else if f = f2_csv then Inr f2_table
      else if f = tagged_csv then Inr tagged_table
      else Inl (ValueError ''No columns to parse from file''))"

definition a_xlsx :: UploadedFile where
  "a_xlsx = \<lparr>name = ''a.xlsx'', content = ''PK''\<rparr>"

definition b_xlsx :: UploadedFile where
  "b_xlsx = \<lparr>name = ''b.xlsx'', content = ''not a workbook''\<rparr>"

definition c_xlsx :: UploadedFile where
  "c_xlsx = \<lparr>name = ''c.xlsx'', content = ''PK c''\<rparr>"

definition sales_table :: DataFrame where
  "sales_table = \<lparr>columns = [''X''], rows = [[Num 10]]\<rparr>"

definition costs_table :: DataFrame where
  "costs_table = \<lparr>columns = [''X''], rows = [[Num 20]]\<rparr>"

definition c_sales_table :: DataFrame where
  "c_sales_table = \<lparr>columns = [''X'', ''W''], rows = [[Num 30, Num 31], [Num 32, Num 33]]\<rparr>"

text \<open>The frame \<open>tagged_table\<close> with another text in its \<open>Filename\<close> cell, and with another in its \<open>Sheet Name\<close> cell.\<close>

definition renamed_table :: DataFrame where
  "renamed_table = \<lparr>columns = [''Filename'', ''Sheet Name'', ''X''],
                    rows = [[Str ''elsewhere'', Str ''tab'', Num 7]]\<rparr>"

definition resheeted_table :: DataFrame where
  "resheeted_table = \<lparr>columns = [''Filename'', ''Sheet Name'', ''X''],
                      rows = [[Str ''old'', Str ''another tab'', Num 7]]\<rparr>"

text \<open>
  The workbook \<open>a.xlsx\<close> has the sheets \<open>Sales\<close>, \<open>Costs\<close> and \<open>Log\<close>; the last has the two
  provenance labels among its headers. The workbook \<open>c.xlsx\<close> has the one sheet \<open>Sales\<close>.
  \<open>b.xlsx\<close> is no workbook.
\<close>

definition example_sheet_names :: sheet_lister where
  "example_sheet_names f =
     (if f = a_xlsx then Inr [''Sales'', ''Costs'', ''Log'']
      else if f = c_xlsx then Inr [''Sales'']
      else Inl (Exception ''File is not a zip file''))"

definition example_read_excel :: excel_reader where
  "example_read_excel f sheet_name =
     (if f = a_xlsx then
        (case sheet_name of
           None \<Rightarrow> Inr sales_table
         | Some s \<Rightarrow>
             if s = ''Sales'' then Inr sales_table
             else if s = ''Costs'' then Inr costs_table
             else if s = ''Log'' then Inr tagged_table
             else Inl (ValueError (''Worksheet named '' @ [CHR 0x27] @ s @ [CHR 0x27] @ '' not found'')))
      else if f = c_xlsx then
        (case sheet_name of
           None \<Rightarrow> Inr c_sales_table
         | Some s \<Rightarrow>
             if s = ''Sales'' then Inr c_sales_table
             else Inl (ValueError (''Worksheet named '' @ [CHR 0x27] @ s @ [CHR 0x27] @ '' not found'')))
      else Inl (Exception ''File is not a zip file''))"

text \<open>The frames these readers give where they succeed.\<close>

definition example_table_of :: "UploadedFile \<Rightarrow> DataFrame" where
  "example_table_of f =
     (if f = f1_csv then f1_table else if f = f2_csv then f2_table else tagged_table)"

definition example_sheet_of :: "UploadedFile \<Rightarrow> string \<Rightarrow> DataFrame" where
  "example_sheet_of f s =
     (if f = a_xlsx then
        (if s = ''Costs'' then costs_table else if s = ''Log'' then tagged_table else sales_table)
      else c_sales_table)"

text \<open>
  The same files with other source data under a provenance label: \<open>t.csv\<close> with another text
  in its \<open>Filename\<close> cell, the sheet \<open>Log\<close> with another text in its \<open>Sheet Name\<close> cell.
\<close>

definition renamed_read_csv :: csv_reader where
  "renamed_read_csv f = (if f = tagged_csv then Inr renamed_table else example_read_csv f)"

definition renamed_table_of :: "UploadedFile \<Rightarrow> DataFrame" where
  "renamed_table_of f = (if f = tagged_csv then renamed_table else example_table_of f)"

definition resheeted_read_excel :: excel_reader where
  "resheeted_read_excel f sheet_name =
     (if f = a_xlsx \<and> sheet_name = Some ''Log'' then Inr resheeted_table
      else example_read_excel f sheet_name)"

definition resheeted_sheet_of :: "UploadedFile \<Rightarrow> string \<Rightarrow> DataFrame" where
  "resheeted_sheet_of f s =
     (if f = a_xlsx \<and> s = ''Log'' then resheeted_table else example_sheet_of f s)"

definition example_selection :: selection where
  "example_selection = [''a.xlsx'' \<mapsto> [''Sales'', ''Log''], ''c.xlsx'' \<mapsto> [''Sales'']]"

text \<open>A user who picks \<open>Sales\<close> by hand in every file, whatever the preset.\<close>

definition pick_sales :: picker where
  "pick_sales label options preset = [''Sales'']"

section \<open>Facts about frames\<close>

lemma get_cell_reindex:
  "set old \<subseteq> set new \<Longrightarrow> get_cell new (reindex new old r) c = get_cell old r c"
  by (auto simp: get_cell_def reindex_def map_of_zip_map split: option.splits dest!: map_of_SomeD set_zip_leftD)

lemma reindex_same:
  "distinct cols \<Longrightarrow> length r = length cols \<Longrightarrow> reindex cols cols r = r"
  by (auto simp: reindex_def get_cell_def map_of_zip_nth intro!: nth_equalityI)

lemma pd_concat_empty_left:
  "well_formed df \<Longrightarrow> pd_concat DataFrame_empty df = df"
  by (simp add: pd_concat_def DataFrame_empty_def well_formed_def aligned_def list_all_iff reindex_same map_idI)

lemma length_rows_setitem: "length (rows (setitem df c v)) = length (rows df)"
  by (simp add: setitem_def)

lemma length_rows_pd_concat: "length (rows (pd_concat a b)) = length (rows a) + length (rows b)"
  by (simp add: pd_concat_def Let_def)

lemma column_pd_concat: "column (pd_concat a b) c = column a c @ column b c"
proof -
  let ?cols = "columns a @ filter (\<lambda>c. c \<notin> set (columns a)) (columns b)"
  have a: "set (columns a) \<subseteq> set ?cols" and b: "set (columns b) \<subseteq> set ?cols"
    by auto
  show ?thesis
    by (simp add: column_def pd_concat_def Let_def get_cell_reindex[OF a] get_cell_reindex[OF b])
qed

lemma get_cell_overwrite:
  "c \<in> set cols \<Longrightarrow> length r = length cols \<Longrightarrow>
   get_cell cols (map2 (\<lambda>k x. if k = c then v else x) cols r) c = v"
  by (induction cols r rule: list_induct2') (auto simp: get_cell_def)

lemma get_cell_append:
  "c \<notin> set cols \<Longrightarrow> length r = length cols \<Longrightarrow> get_cell (cols @ [c]) (r @ [v]) c = v"
proof -
  assume c: "c \<notin> set cols" and "length r = length cols"
  then have len: "length cols = length r"
    by simp
  with c have none: "map_of (zip cols r) c = None"
    by simp
  show ?thesis
    by (simp add: get_cell_def map_add_def none len)
qed

lemma column_setitem:
  "aligned df \<Longrightarrow> column (setitem df c v) c = replicate (length (rows df)) v"
  by (auto simp: column_def setitem_def aligned_def list_all_iff get_cell_overwrite get_cell_append
      map_replicate_const[symmetric] intro!: map_cong)

lemma aligned_setitem: "aligned df \<Longrightarrow> aligned (setitem df c v)"
  by (auto simp: aligned_def setitem_def list_all_iff)

lemma aligned_pd_concat: "aligned (pd_concat a b)"
  by (auto simp: aligned_def pd_concat_def Let_def reindex_def list_all_iff)

lemma well_formed_setitem: "well_formed df \<Longrightarrow> well_formed (setitem df c v)"
  by (auto simp: well_formed_def aligned_setitem) (auto simp: setitem_def)

lemma get_cell_overwrite_other:
  "c \<noteq> c' \<Longrightarrow> get_cell cols (map2 (\<lambda>k x. if k = c' then v else x) cols r) c = get_cell cols r c"
  by (induction cols r rule: list_induct2') (auto simp: get_cell_def)

lemma get_cell_append_other:
  "c \<noteq> c' \<Longrightarrow> length r = length cols \<Longrightarrow>
   get_cell (cols @ [c']) (r @ [v]) c = get_cell cols r c"
proof -
  assume c: "c \<noteq> c'" and "length r = length cols"
  then have len: "length cols = length r"
    by simp
  show ?thesis
    using c by (auto simp: get_cell_def map_add_def len split: option.splits
        dest: map_of_SomeD set_zip_leftD)
qed

lemma column_setitem_other:
  "c \<noteq> c' \<Longrightarrow> aligned df \<Longrightarrow> column (setitem df c' v) c = column df c"
  by (auto simp: column_def setitem_def aligned_def list_all_iff get_cell_overwrite_other
      get_cell_append_other)

lemma columns_pd_concat:
  "columns (pd_concat a b) = columns a @ filter (\<lambda>c. c \<notin> set (columns a)) (columns b)"
  by (simp add: pd_concat_def Let_def)

lemma columns_setitem_present:
  "c \<in> set (columns df) \<Longrightarrow> columns (setitem df c v) = columns df"
  by (simp add: setitem_def)

lemma map2_overwrite_twice:
  "map2 (\<lambda>k x. if k = c then v else x) cols (map2 (\<lambda>k x. if k = c then w else x) cols r) =
   map2 (\<lambda>k x. if k = c then v else x) cols r"
  by (induction cols r rule: list_induct2') auto

lemma map2_overwrite_absent:
  "c \<notin> set cols \<Longrightarrow> length r = length cols \<Longrightarrow>
   map2 (\<lambda>k x. if k = c then v else x) cols r = r"
  by (induction cols r rule: list_induct2') auto

lemma setitem_twice:
  "aligned df \<Longrightarrow> setitem (setitem df c w) c v = setitem df c v"
  by (auto simp: setitem_def aligned_def list_all_iff map2_overwrite_twice map2_overwrite_absent)

lemma columns_pd_concat_empty_left: "columns (pd_concat DataFrame_empty df) = columns df"
  by (simp add: pd_concat_def DataFrame_empty_def Let_def)

lemma column_pd_concat_empty_left: "column (pd_concat DataFrame_empty df) c = column df c"
  by (simp add: column_pd_concat) (simp add: column_def DataFrame_empty_def)

lemma set_columns_setitem: "set (columns (setitem df c v)) = insert c (set (columns df))"
  by (auto simp: setitem_def)

lemma set_columns_pd_concat: "set (columns (pd_concat a b)) = set (columns a) \<union> set (columns b)"
  by (auto simp: columns_pd_concat)

lemma set_columns_foldl_pd_concat:
  "set (columns (foldl pd_concat d ts)) = set (columns d) \<union> (\<Union>t\<in>set ts. set (columns t))"
  by (induction ts arbitrary: d) (auto simp: set_columns_pd_concat)

lemma distinct_columns_setitem: "distinct (columns df) \<Longrightarrow> distinct (columns (setitem df c v))"
  by (simp add: setitem_def)

lemma distinct_columns_pd_concat:
  "distinct (columns a) \<Longrightarrow> distinct (columns b) \<Longrightarrow> distinct (columns (pd_concat a b))"
  by (auto simp: columns_pd_concat)

lemma distinct_columns_foldl_pd_concat:
  "distinct (columns d) \<Longrightarrow> \<forall>t\<in>set ts. distinct (columns t) \<Longrightarrow>
   distinct (columns (foldl pd_concat d ts))"
  by (induction ts arbitrary: d) (simp_all add: distinct_columns_pd_concat)

lemma setitem_same_but_for:
  assumes "same_but_for c a b" and "aligned a" and "aligned b"
  shows "setitem a c v = setitem b c v"
proof -
  have "setitem a c v = setitem (setitem a c Null) c v"
    by (simp add: setitem_twice assms(2))
  also have "\<dots> = setitem (setitem b c Null) c v"
    using assms(1) by (simp add: same_but_for_def)
  also have "\<dots> = setitem b c v"
    by (simp add: setitem_twice assms(3))
  finally show ?thesis .
qed

lemma map2_overwrite_commute:
  "map2 (\<lambda>k x. if k = c then v else x) cols (map2 (\<lambda>k x. if k = c' then w else x) cols r) =
   map2 (\<lambda>k x. if k = c' then w else x) cols (map2 (\<lambda>k x. if k = c then v else x) cols r)"
  if "c \<noteq> c'"
  using that by (induction cols r rule: list_induct2') auto

lemma map2_overwrite_snoc:
  "c \<noteq> c' \<Longrightarrow> length r = length cols \<Longrightarrow>
   map2 (\<lambda>k x. if k = c then v else x) (cols @ [c']) (r @ [w]) =
   map2 (\<lambda>k x. if k = c then v else x) cols r @ [w]"
  by (induction cols r rule: list_induct2') auto

lemma setitem_commute:
  "aligned df \<Longrightarrow> c \<in> set (columns df) \<Longrightarrow> c \<noteq> c' \<Longrightarrow>
   setitem (setitem df c' w) c v = setitem (setitem df c v) c' w"
  by (auto simp: setitem_def aligned_def list_all_iff map2_overwrite_commute map2_overwrite_snoc)

lemma same_but_for_absent:
  assumes "same_but_for c a b" and "c \<notin> set (columns a)"
  shows "a = b"
proof -
  from assms have absent: "c \<notin> set (columns b)"
    by (simp add: same_but_for_def)
  with assms have "columns a = columns b" and "map (\<lambda>r. r @ [Null]) (rows a) = map (\<lambda>r. r @ [Null]) (rows b)"
    by (simp_all add: same_but_for_def setitem_def)
  moreover have "inj (\<lambda>r::cell list. r @ [Null])"
    by (simp add: inj_on_def)
  ultimately show ?thesis
    by (simp add: inj_map_eq_map)
qed

lemma tagged_sheet_same_but_for:
  assumes same: "same_but_for ''Sheet Name'' a b" and a: "aligned a" and b: "aligned b"
  shows "tagged_sheet a g s = tagged_sheet b g s"
proof (cases "''Sheet Name'' \<in> set (columns a)")
  case True
  with same have present: "''Sheet Name'' \<in> set (columns b)"
    by (simp add: same_but_for_def)
  have "tagged_sheet a g s = setitem (setitem a ''Sheet Name'' (Str s)) ''Filename'' (Str (name g))"
    by (simp add: tagged_sheet_def setitem_commute [OF a True])
  also have "setitem a ''Sheet Name'' (Str s) = setitem b ''Sheet Name'' (Str s)"
    using same a b by (rule setitem_same_but_for)
  also have "setitem (setitem b ''Sheet Name'' (Str s)) ''Filename'' (Str (name g)) =
      tagged_sheet b g s"
    by (simp add: tagged_sheet_def setitem_commute [OF b present])
  finally show ?thesis .
next
  case False
  with same have "a = b"
    by (rule same_but_for_absent)
  then show ?thesis by simp
qed

lemma column_tagged_sheet:
  assumes "aligned df"
  shows "column (tagged_sheet df g s) ''Sheet Name'' = replicate (length (rows df)) (Str s)"
    and "column (tagged_sheet df g s) ''Filename'' = replicate (length (rows df)) (Str (name g))"
  using assms
  by (simp_all add: tagged_sheet_def column_setitem column_setitem_other aligned_setitem
      length_rows_setitem)

lemma set_columns_tagged_sheet:
  "set (columns (tagged_sheet df g s)) = insert ''Filename'' (insert ''Sheet Name'' (set (columns df)))"
  by (auto simp: tagged_sheet_def set_columns_setitem)

lemma distinct_columns_tagged_sheet:
  "distinct (columns df) \<Longrightarrow> distinct (columns (tagged_sheet df g s))"
  by (simp add: tagged_sheet_def distinct_columns_setitem)

lemma concat_map_concat:
  "concat (map f (concat xss)) = concat (map (\<lambda>xs. concat (map f xs)) xss)"
  by (induction xss) simp_all

section \<open>An unknown file type\<close>

lemma files_loop_other_type:
  "file_type \<noteq> ''csv'' \<Longrightarrow> file_type \<noteq> ''excel'' \<Longrightarrow>
   files_loop read_csv read_excel file_type file_list st = st"
  by (induction file_list arbitrary: st) (simp_all add: files_body_def split: prod.splits)

text \<open>
  Claim C9. With a file type that is neither \<open>csv\<close> nor \<open>excel\<close>, \<open>consolidate_files\<close>
  returns the empty frame and shows nothing, whatever the files are and whatever the
  readers would have returned or raised: no reader is called.
\<close>

theorem consolidate_files_other_type:
  "file_type \<noteq> ''csv'' \<Longrightarrow> file_type \<noteq> ''excel'' \<Longrightarrow>
   consolidate_files read_csv read_excel file_list file_type = (DataFrame_empty, [])"
  by (simp add: consolidate_files_def files_loop_other_type)

theorem consolidate_files_other_type_witness:
  "''json'' \<noteq> ''csv'' \<and> ''json'' \<noteq> ''excel'' \<and>
   consolidate_files
     (\<lambda>f. Inr \<lparr>columns = [''X''], rows = [[Num 1]]\<rparr>)
     (\<lambda>f s. Inl (ValueError ''bad''))
     [\<lparr>name = ''a.json'', content = ''{}''\<rparr>, \<lparr>name = ''b.json'', content = ''[]''\<rparr>]
     ''json'' = (DataFrame_empty, [])"
  using consolidate_files_other_type
    [of "''json''" "\<lambda>f. Inr \<lparr>columns = [''X''], rows = [[Num 1]]\<rparr>" "\<lambda>f s. Inl (ValueError ''bad'')"
        "[\<lparr>name = ''a.json'', content = ''{}''\<rparr>, \<lparr>name = ''b.json'', content = ''[]''\<rparr>]"]
  by simp

section \<open>Valid files: row count and provenance\<close>

lemma files_loop_csv_valid:
  "\<forall>f\<in>set fs. read_csv f = Inr (table_of f) \<Longrightarrow>
   files_loop read_csv read_excel ''csv'' fs (data, out) =
     (foldl pd_concat data (map (\<lambda>f. setitem (table_of f) ''Filename'' (Str (name f))) fs), out)"
  by (induction fs arbitrary: data) (simp_all add: files_body_def)

lemma length_rows_foldl_pd_concat:
  "length (rows (foldl pd_concat d ts)) = length (rows d) + sum_list (map (\<lambda>t. length (rows t)) ts)"
  by (induction ts arbitrary: d) (simp_all add: length_rows_pd_concat)

lemma column_foldl_pd_concat:
  "column (foldl pd_concat d ts) c = column d c @ concat (map (\<lambda>t. column t c) ts)"
  by (induction ts arbitrary: d) (simp_all add: column_pd_concat)

text \<open>
  Claim C1. When \<open>read_csv\<close> succeeds on every file of the list, \<open>consolidate_files\<close> with
  type \<open>csv\<close> returns a frame with as many rows as the files' frames have together; its
  \<open>Filename\<close> column reads, from top to bottom, the name of the first file once for each of its
  rows, then the name of the second file once for each of its rows, and so on: every row
  carries the name of the file it came from. Nothing is reported. This holds for any list and
  any schemas, so in particular for non-empty lists of files with one schema.
\<close>

theorem consolidate_files_csv_rows_and_filenames:
  assumes valid: "\<forall>f\<in>set file_list. read_csv f = Inr (table_of f) \<and> aligned (table_of f)"
  shows "length (rows (fst (consolidate_files read_csv read_excel file_list ''csv''))) =
           sum_list (map (\<lambda>f. length (rows (table_of f))) file_list)
       \<and> column (fst (consolidate_files read_csv read_excel file_list ''csv'')) ''Filename'' =
           concat (map (\<lambda>f. replicate (length (rows (table_of f))) (Str (name f))) file_list)
       \<and> snd (consolidate_files read_csv read_excel file_list ''csv'') = []"
proof -
  let ?tag = "\<lambda>f. setitem (table_of f) ''Filename'' (Str (name f))"
  from valid have run: "consolidate_files read_csv read_excel file_list ''csv'' =
      (foldl pd_concat DataFrame_empty (map ?tag file_list), [])"
    by (simp add: consolidate_files_def files_loop_csv_valid)
  have count: "map (\<lambda>f. length (rows (?tag f))) file_list =
      map (\<lambda>f. length (rows (table_of f))) file_list"
    by (simp add: length_rows_setitem)
  from valid have names: "map (\<lambda>f. column (?tag f) ''Filename'') file_list =
      map (\<lambda>f. replicate (length (rows (table_of f))) (Str (name f))) file_list"
    by (simp add: column_setitem)
  have none: "column DataFrame_empty ''Filename'' = []" "rows DataFrame_empty = []"
    by (simp_all add: column_def DataFrame_empty_def)
  show ?thesis
    by (simp add: run length_rows_foldl_pd_concat column_foldl_pd_concat comp_def count names none)
qed

theorem consolidate_files_csv_rows_and_filenames_witness:
  "example_read_csv f1_csv = Inr f1_table \<and> aligned f1_table
   \<and> example_read_csv f2_csv = Inr f2_table \<and> aligned f2_table
   \<and> length (rows (fst (consolidate_files example_read_csv example_read_excel [f1_csv, f2_csv] ''csv''))) = 3
   \<and> column (fst (consolidate_files example_read_csv example_read_excel [f1_csv, f2_csv] ''csv''))
         ''Filename'' = [Str ''f1.csv'', Str ''f1.csv'', Str ''f2.csv'']
   \<and> snd (consolidate_files example_read_csv example_read_excel [f1_csv, f2_csv] ''csv'') = []"
proof -
  have valid: "\<forall>f\<in>set [f1_csv, f2_csv].
      example_read_csv f = Inr (if f = f1_csv then f1_table else f2_table) \<and>
      aligned (if f = f1_csv then f1_table else f2_table)"
    by (simp add: example_read_csv_def f1_csv_def f2_csv_def f1_table_def f2_table_def aligned_def)
  show ?thesis
    using valid consolidate_files_csv_rows_and_filenames [OF valid, of example_read_excel]
    by (simp add: f1_csv_def f2_csv_def f1_table_def f2_table_def)
qed

section \<open>One valid file and one corrupt file\<close>

lemma files_except_names_file:
  "\<exists>msg. files_except f e = st_error msg \<and> sublist (name f) msg"
proof (cases e)
  case (ValueError x)
  have "sublist (name f) (''Error processing '' @ name f @ '': '' @ x)"
    by (rule sublist_appendI)
  then show ?thesis
    unfolding ValueError files_except.simps by blast
next
  case (Exception x)
  have "sublist (name f) (''Unexpected error with file '' @ name f @ '': '' @ x)"
    by (rule sublist_appendI)
  then show ?thesis
    unfolding Exception files_except.simps by blast
qed

text \<open>
  Claim C2. For a valid file and a file on which the reader raises, in either order and for
  either file type, \<open>consolidate_files\<close> returns: the valid file's frame with its \<open>Filename\<close>
  column set, so all its rows with every other column unchanged; and exactly one message, an
  \<open>st.error\<close> whose text contains the corrupt file's name. The function returns a value in
  both cases: the exception does not leave it. Whatever has been accumulated when the
  corrupt file's turn comes is kept as it is: its iteration only adds the message.
\<close>

theorem one_valid_one_corrupt_file:
  assumes "file_type = ''csv'' \<and> read_csv good = Inr df \<and> read_csv bad = Inl e
         \<or> file_type = ''excel'' \<and> read_excel good None = Inr df \<and> read_excel bad None = Inl e"
    and "well_formed df"
  shows "consolidate_files read_csv read_excel [good, bad] file_type =
           (setitem df ''Filename'' (Str (name good)), [files_except bad e])
       \<and> consolidate_files read_csv read_excel [bad, good] file_type =
           (setitem df ''Filename'' (Str (name good)), [files_except bad e])
       \<and> (\<exists>msg. files_except bad e = st_error msg \<and> sublist (name bad) msg)
       \<and> length (rows (setitem df ''Filename'' (Str (name good)))) = length (rows df)
       \<and> (\<forall>c. c \<noteq> ''Filename'' \<longrightarrow>
             column (setitem df ''Filename'' (Str (name good))) c = column df c)
       \<and> files_body read_csv read_excel file_type bad (consolidated_data, out) =
           (consolidated_data, out @ [files_except bad e])"
proof -
  from assms(2) have "well_formed (setitem df ''Filename'' (Str (name good)))"
    by (rule well_formed_setitem)
  then have start: "pd_concat DataFrame_empty (setitem df ''Filename'' (Str (name good))) =
      setitem df ''Filename'' (Str (name good))"
    by (rule pd_concat_empty_left)
  from assms(2) have al: "aligned df"
    by (simp add: well_formed_def)
  from assms(1) show ?thesis
    by (auto simp: consolidate_files_def files_body_def start files_except_names_file
        length_rows_setitem column_setitem_other[OF _ al])
qed

theorem one_valid_one_corrupt_file_witness:
  "(''csv'' = ''csv'' \<and> example_read_csv f1_csv = Inr f1_table \<and>
      example_read_csv bad_csv = Inl (ValueError ''No columns to parse from file''))
   \<and> well_formed f1_table
   \<and> consolidate_files example_read_csv example_read_excel [f1_csv, bad_csv] ''csv'' =
        (\<lparr>columns = [''X'', ''Y'', ''Filename''],
          rows = [[Num 1, Num 2, Str ''f1.csv''], [Num 3, Num 4, Str ''f1.csv'']]\<rparr>,
         [st_error ''Error processing bad.csv: No columns to parse from file''])
   \<and> consolidate_files example_read_csv example_read_excel [bad_csv, f1_csv] ''csv'' =
        (\<lparr>columns = [''X'', ''Y'', ''Filename''],
          rows = [[Num 1, Num 2, Str ''f1.csv''], [Num 3, Num 4, Str ''f1.csv'']]\<rparr>,
         [st_error ''Error processing bad.csv: No columns to parse from file''])"
proof -
  have reads: "''csv'' = ''csv'' \<and> example_read_csv f1_csv = Inr f1_table \<and>
      example_read_csv bad_csv = Inl (ValueError ''No columns to parse from file'')"
    by (simp add: example_read_csv_def f1_csv_def f2_csv_def bad_csv_def tagged_csv_def)
  have wf: "well_formed f1_table"
    by (simp add: well_formed_def aligned_def f1_table_def)
  have tagged: "setitem f1_table ''Filename'' (Str (name f1_csv)) =
      \<lparr>columns = [''X'', ''Y'', ''Filename''],
       rows = [[Num 1, Num 2, Str ''f1.csv''], [Num 3, Num 4, Str ''f1.csv'']]\<rparr>"
    by (simp add: setitem_def f1_table_def f1_csv_def)
  have msg: "files_except bad_csv (ValueError ''No columns to parse from file'') =
      st_error ''Error processing bad.csv: No columns to parse from file''"
    by (simp add: bad_csv_def)
  show ?thesis
    using reads wf
      one_valid_one_corrupt_file [of "''csv''" example_read_csv f1_csv f1_table bad_csv
        "ValueError ''No columns to parse from file''" example_read_excel, OF disjI1, OF reads wf]
    by (simp only: tagged msg simp_thms)
qed

section \<open>The order of the columns\<close>

lemma prefix_columns_files_body:
  "prefix (columns (fst st)) (columns (fst (files_body read_csv read_excel file_type f st)))"
  by (cases st) (simp add: files_body_def columns_pd_concat split: sum.splits)

lemma prefix_columns_files_loop:
  "prefix (columns (fst st)) (columns (fst (files_loop read_csv read_excel file_type fs st)))"
proof (induction fs arbitrary: st)
  case Nil
  show ?case by simp
next
  case (Cons f fs)
  have "prefix (columns (fst st)) (columns (fst (files_body read_csv read_excel file_type f st)))"
    by (rule prefix_columns_files_body)
  also have "prefix \<dots> (columns (fst (files_loop read_csv read_excel file_type fs
      (files_body read_csv read_excel file_type f st))))"
    by (rule Cons.IH)
  finally show ?case by simp
qed

text \<open>
  Claim C5, as stated, fails: consolidating \<open>f1.csv\<close> (columns \<open>X\<close>, \<open>Y\<close>) and \<open>f2.csv\<close>
  (columns \<open>X\<close>, \<open>Z\<close>) does not give the columns \<open>X\<close>, \<open>Y\<close>, \<open>Z\<close>, \<open>Filename\<close>.
\<close>

theorem example_column_order_counterexample:
  "columns (fst (consolidate_files example_read_csv example_read_excel [f1_csv, f2_csv] ''csv''))
     \<noteq> [''X'', ''Y'', ''Z'', ''Filename'']"
  by (simp add: consolidate_files_def files_body_def example_read_csv_def f1_csv_def f2_csv_def
      f1_table_def f2_table_def setitem_def pd_concat_def DataFrame_empty_def Let_def)

text \<open>
  Claim C5, amended. The two files consolidate to three rows under the columns \<open>X\<close>, \<open>Y\<close>,
  \<open>Filename\<close>, \<open>Z\<close>, in this order: each frame gets its \<open>Filename\<close> column before it is
  concatenated, so \<open>Z\<close>, which only the second file has, comes after it. The \<open>Z\<close> cells of
  \<open>f1.csv\<close> and the \<open>Y\<close> cell of \<open>f2.csv\<close> are null. In general the columns the accumulated
  frame has keep their positions through the rest of the loop, and each concatenation
  appends the new labels at the end, in the order the new frame has them.
\<close>

theorem example_column_order:
  "consolidate_files example_read_csv example_read_excel [f1_csv, f2_csv] ''csv'' =
     (\<lparr>columns = [''X'', ''Y'', ''Filename'', ''Z''],
       rows = [[Num 1, Num 2, Str ''f1.csv'', Null],
               [Num 3, Num 4, Str ''f1.csv'', Null],
               [Num 5, Null, Str ''f2.csv'', Num 6]]\<rparr>, [])
   \<and> prefix (columns consolidated_data)
        (columns (fst (files_loop read_csv read_excel file_type file_list (consolidated_data, out))))
   \<and> columns (pd_concat consolidated_data df) =
        columns consolidated_data @ filter (\<lambda>c. c \<notin> set (columns consolidated_data)) (columns df)"
proof -
  have "consolidate_files example_read_csv example_read_excel [f1_csv, f2_csv] ''csv'' =
     (\<lparr>columns = [''X'', ''Y'', ''Filename'', ''Z''],
       rows = [[Num 1, Num 2, Str ''f1.csv'', Null],
               [Num 3, Num 4, Str ''f1.csv'', Null],
               [Num 5, Null, Str ''f2.csv'', Num 6]]\<rparr>, [])"
    by (simp add: consolidate_files_def files_body_def example_read_csv_def f1_csv_def f2_csv_def
        f1_table_def f2_table_def setitem_def pd_concat_def DataFrame_empty_def reindex_def
        get_cell_def Let_def)
  moreover have "prefix (columns consolidated_data)
        (columns (fst (files_loop read_csv read_excel file_type file_list (consolidated_data, out))))"
    using prefix_columns_files_loop [of "(consolidated_data, out)"] by simp
  ultimately show ?thesis
    by (simp add: columns_pd_concat)
qed

section \<open>Nothing produced\<close>

lemma files_loop_all_fail:
  "\<forall>f\<in>set fs. (file_type = ''csv'' \<longrightarrow> isl (read_csv f)) \<and>
               (file_type = ''excel'' \<longrightarrow> isl (read_excel f None)) \<Longrightarrow>
   files_loop read_csv read_excel file_type fs (data, out) =
     (data, out @
        (if file_type = ''csv'' then map (\<lambda>f. files_except f (projl (read_csv f))) fs
         else if file_type = ''excel'' then map (\<lambda>f. files_except f (projl (read_excel f None))) fs
         else []))"
  by (induction fs arbitrary: out) (auto simp: files_body_def split: sum.splits)

lemma file_mode_no_upload:
  "file_mode read_csv read_excel output_file_name [] file_type = []"
  by (simp add: file_mode_def)

text \<open>
  Claim C7. When no file yields a frame (every read raises, or the file type is unknown and
  nothing is read), \<open>consolidate_files\<close> returns the empty frame, with no row, for any list. On
  the page a consolidation runs only when there is an upload (line 148); then the file branch
  shows the number of uploads, the message of each failed read, and last the warning
  \<open>No data to display after consolidation.\<close>: a warning, not an error, and no exception,
  since the functions return these values. With no upload the page runs no consolidation
  and shows nothing of this (\<open>file_mode_no_upload\<close>).
\<close>

theorem nothing_produced_nothing_to_display:
  assumes "\<forall>f\<in>set uploaded_files.
             (file_type = ''csv'' \<longrightarrow> isl (read_csv f)) \<and>
             (file_type = ''excel'' \<longrightarrow> isl (read_excel f None))"
  shows "fst (consolidate_files read_csv read_excel uploaded_files file_type) = DataFrame_empty
       \<and> rows (fst (consolidate_files read_csv read_excel uploaded_files file_type)) = []
       \<and> (uploaded_files \<noteq> [] \<longrightarrow>
           file_mode read_csv read_excel output_file_name uploaded_files file_type =
             total_uploaded uploaded_files #
             (if file_type = ''csv''
                then map (\<lambda>f. files_except f (projl (read_csv f))) uploaded_files
              else if file_type = ''excel''
                then map (\<lambda>f. files_except f (projl (read_excel f None))) uploaded_files
              else [])
             @ [st_warning ''No data to display after consolidation.''])"
  using assms
  by (simp add: file_mode_def consolidate_files_def files_loop_all_fail show_result_def
      df_empty_def DataFrame_empty_def)

theorem nothing_produced_nothing_to_display_witness:
  "isl (example_read_csv bad_csv) \<and> [bad_csv] \<noteq> []
   \<and> fst (consolidate_files example_read_csv example_read_excel [bad_csv] ''csv'') = DataFrame_empty
   \<and> rows (fst (consolidate_files example_read_csv example_read_excel [bad_csv] ''csv'')) = []
   \<and> file_mode example_read_csv example_read_excel ''consolidated'' [bad_csv] ''csv'' =
        [st_write ''Total uploaded files: 1'',
         st_error ''Error processing bad.csv: No columns to parse from file'',
         st_warning ''No data to display after consolidation.'']"
proof -
  have fails: "example_read_csv bad_csv = Inl (ValueError ''No columns to parse from file'')"
    by (simp add: example_read_csv_def f1_csv_def f2_csv_def bad_csv_def tagged_csv_def)
  then have hyp: "\<forall>f\<in>set [bad_csv].
      (''csv'' = ''csv'' \<longrightarrow> isl (example_read_csv f)) \<and>
      (''csv'' = ''excel'' \<longrightarrow> isl (example_read_excel f None))"
    by simp
  have nm: "name bad_csv = ''bad.csv''"
    by (simp add: bad_csv_def)
  have total: "total_uploaded [bad_csv] = st_write ''Total uploaded files: 1''"
    by (simp add: total_uploaded_def str_nat.simps [of "Suc 0"])
  show ?thesis
    using hyp nothing_produced_nothing_to_display
      [where file_type = "''csv''" and read_csv = example_read_csv
         and read_excel = example_read_excel and uploaded_files = "[bad_csv]"
         and output_file_name = "''consolidated''"]
    by (simp add: fails nm total DataFrame_empty_def)
qed

section \<open>A sheet that cannot be read\<close>

lemma sheets_inner_all_valid:
  "\<forall>s\<in>set sheets. read_excel f (Some s) = Inr (sheet_of f s) \<Longrightarrow>
   sheets_inner read_excel f sheets data =
     (foldl pd_concat data (map (\<lambda>s. tagged_sheet (sheet_of f s) f s) sheets), None)"
  by (induction sheets arbitrary: data) simp_all

lemma sheets_inner_stops:
  "\<forall>s\<in>set before. read_excel f (Some s) = Inr (sheet_of f s) \<Longrightarrow>
   read_excel f (Some bad) = Inl e \<Longrightarrow>
   sheets_inner read_excel f (before @ bad # rest) data =
     (foldl pd_concat data (map (\<lambda>s. tagged_sheet (sheet_of f s) f s) before), Some e)"
  by (induction before arbitrary: data) simp_all

lemma sheets_body_all_valid:
  assumes "\<forall>s\<in>set (sheets_of selected_sheets (name g)). read_excel g (Some s) = Inr (sheet_of g s)"
  shows "sheets_body read_excel selected_sheets g (data, out) =
     (foldl pd_concat data
        (map (\<lambda>s. tagged_sheet (sheet_of g s) g s) (sheets_of selected_sheets (name g))), out)"
proof (cases "selected_sheets (name g)")
  case None
  then show ?thesis
    by (simp add: sheets_body_def sheets_of_def)
next
  case (Some sheets)
  with assms have "\<forall>s\<in>set sheets. read_excel g (Some s) = Inr (sheet_of g s)"
    by (simp add: sheets_of_def)
  then have "sheets_inner read_excel g sheets data =
      (foldl pd_concat data (map (\<lambda>s. tagged_sheet (sheet_of g s) g s) sheets), None)"
    by (rule sheets_inner_all_valid)
  with Some show ?thesis
    by (simp add: sheets_body_def sheets_of_def)
qed

lemma sheets_loop_all_valid:
  "\<forall>g\<in>set gs. \<forall>s\<in>set (sheets_of selected_sheets (name g)).
      read_excel g (Some s) = Inr (sheet_of g s) \<Longrightarrow>
   sheets_loop read_excel selected_sheets gs (data, out) =
     (foldl pd_concat data
        (concat (map (\<lambda>g. map (\<lambda>s. tagged_sheet (sheet_of g s) g s)
                              (sheets_of selected_sheets (name g))) gs)), out)"
proof (induction gs arbitrary: data)
  case Nil
  show ?case by simp
next
  case (Cons g gs)
  from Cons.prems have head: "\<forall>s\<in>set (sheets_of selected_sheets (name g)).
      read_excel g (Some s) = Inr (sheet_of g s)"
    by simp
  from Cons.prems have tail: "\<forall>g\<in>set gs. \<forall>s\<in>set (sheets_of selected_sheets (name g)).
      read_excel g (Some s) = Inr (sheet_of g s)"
    by simp
  show ?case
    by (simp add: Cons.IH [OF tail]
        sheets_body_all_valid [where sheet_of = sheet_of and read_excel = read_excel
          and selected_sheets = selected_sheets and g = g, OF head])
qed

lemma sheets_loop_append:
  "sheets_loop read_excel selected_sheets (xs @ ys) st =
     sheets_loop read_excel selected_sheets ys (sheets_loop read_excel selected_sheets xs st)"
  by (induction xs arbitrary: st) simp_all

lemma sheets_except_names_file:
  "\<exists>msg. sheets_except f e = st_error msg \<and> sublist (name f) msg"
proof (cases e)
  case (ValueError x)
  have "sublist (name f) (''Error processing sheet in '' @ name f @ '': '' @ x)"
    by (rule sublist_appendI)
  then show ?thesis
    unfolding ValueError sheets_except.simps by blast
next
  case (Exception x)
  have "sublist (name f) (''Unexpected error with file '' @ name f @ '': '' @ x)"
    by (rule sublist_appendI)
  then show ?thesis
    unfolding Exception sheets_except.simps by blast
qed

text \<open>
  Claim C3, as stated, fails. In \<open>a.xlsx\<close> the sheets \<open>Sales\<close>, \<open>Totals\<close> and \<open>Costs\<close> are
  selected, in this order; reading \<open>Totals\<close> raises, reading \<open>Costs\<close> would succeed. The result
  holds the row of \<open>Sales\<close> only: \<open>Costs\<close>, a remaining sheet of the same file, is not loaded.
\<close>

theorem sheet_failure_skips_rest_of_file_counterexample:
  "example_read_excel a_xlsx (Some ''Costs'') = Inr costs_table
   \<and> Str ''Costs'' \<notin> set (column (fst (consolidate_sheets example_read_excel [a_xlsx]
          [''a.xlsx'' \<mapsto> [''Sales'', ''Totals'', ''Costs'']])) ''Sheet Name'')
   \<and> rows (fst (consolidate_sheets example_read_excel [a_xlsx]
          [''a.xlsx'' \<mapsto> [''Sales'', ''Totals'', ''Costs'']])) =
        [[Num 10, Str ''a.xlsx'', Str ''Sales'']]"
  by (simp add: consolidate_sheets_def sheets_body_def example_read_excel_def a_xlsx_def
      sales_table_def costs_table_def tagged_sheet_def setitem_def pd_concat_def
      DataFrame_empty_def reindex_def get_cell_def column_def Let_def)

text \<open>
  Claim C3, amended: in \<open>consolidate_sheets\<close> a failure is isolated per file. Let reading one
  selected sheet of a file raise, after the sheets selected before it in that file were read,
  and let every selected sheet of the files before and after that file in the list be
  readable. Then the result is, in this order, the tagged frames of all selected sheets of
  the files before, of the sheets of the failing file read before the failure, and of all
  selected sheets of the files after, concatenated; the sheets selected in the failing file
  after the failure are not in it. Exactly one message is recorded, and it names the file.
\<close>

theorem sheet_failure_ends_its_file_only:
  assumes sel: "selected_sheets (name f) = Some (before @ bad # rest)"
    and before: "\<forall>s\<in>set before. read_excel f (Some s) = Inr (sheet_of f s)"
    and bad: "read_excel f (Some bad) = Inl e"
    and earlier: "\<forall>g\<in>set earlier. \<forall>s\<in>set (sheets_of selected_sheets (name g)).
                    read_excel g (Some s) = Inr (sheet_of g s)"
    and later: "\<forall>g\<in>set later. \<forall>s\<in>set (sheets_of selected_sheets (name g)).
                  read_excel g (Some s) = Inr (sheet_of g s)"
  shows "consolidate_sheets read_excel (earlier @ f # later) selected_sheets =
           (foldl pd_concat DataFrame_empty
              (concat (map (\<lambda>g. map (\<lambda>s. tagged_sheet (sheet_of g s) g s)
                                    (sheets_of selected_sheets (name g))) earlier)
               @ map (\<lambda>s. tagged_sheet (sheet_of f s) f s) before
               @ concat (map (\<lambda>g. map (\<lambda>s. tagged_sheet (sheet_of g s) g s)
                                      (sheets_of selected_sheets (name g))) later)),
            [sheets_except f e])
       \<and> (\<exists>msg. sheets_except f e = st_error msg \<and> sublist (name f) msg)"
proof -
  have inner: "sheets_inner read_excel f (before @ bad # rest) data =
      (foldl pd_concat data (map (\<lambda>s. tagged_sheet (sheet_of f s) f s) before), Some e)" for data
    by (rule sheets_inner_stops [where sheet_of = sheet_of and read_excel = read_excel
          and f = f, OF before bad])
  have step: "sheets_body read_excel selected_sheets f (data, out) =
      (foldl pd_concat data (map (\<lambda>s. tagged_sheet (sheet_of f s) f s) before),
       out @ [sheets_except f e])" for data out
    by (simp add: sheets_body_def sel inner)
  show ?thesis
    by (simp add: consolidate_sheets_def sheets_loop_append step sheets_except_names_file
        sheets_loop_all_valid [where sheet_of = sheet_of and read_excel = read_excel
          and selected_sheets = selected_sheets and gs = earlier, OF earlier]
        sheets_loop_all_valid [where sheet_of = sheet_of and read_excel = read_excel
          and selected_sheets = selected_sheets and gs = later, OF later])
qed

theorem sheet_failure_ends_its_file_only_witness:
  "[''a.xlsx'' \<mapsto> [''Sales'', ''Totals'', ''Costs''], ''c.xlsx'' \<mapsto> [''Sales'']] (name a_xlsx) =
     Some ([''Sales''] @ ''Totals'' # [''Costs''])
   \<and> example_read_excel a_xlsx (Some ''Sales'') = Inr sales_table
   \<and> example_read_excel a_xlsx (Some ''Totals'') =
        Inl (ValueError (''Worksheet named '' @ [CHR 0x27] @ ''Totals'' @ [CHR 0x27] @ '' not found''))
   \<and> example_read_excel c_xlsx (Some ''Sales'') = Inr c_sales_table
   \<and> consolidate_sheets example_read_excel [a_xlsx, c_xlsx]
        [''a.xlsx'' \<mapsto> [''Sales'', ''Totals'', ''Costs''], ''c.xlsx'' \<mapsto> [''Sales'']] =
      (\<lparr>columns = [''X'', ''Filename'', ''Sheet Name'', ''W''],
        rows = [[Num 10, Str ''a.xlsx'', Str ''Sales'', Null],
                [Num 30, Str ''c.xlsx'', Str ''Sales'', Num 31],
                [Num 32, Str ''c.xlsx'', Str ''Sales'', Num 33]]\<rparr>,
       [st_error (''Error processing sheet in a.xlsx: Worksheet named '' @ [CHR 0x27] @ ''Totals'' @
                  [CHR 0x27] @ '' not found'')])"
proof -
  let ?sel = "[''a.xlsx'' \<mapsto> [''Sales'', ''Totals'', ''Costs''], ''c.xlsx'' \<mapsto> [''Sales'']]"
  let ?sheet_of = "\<lambda>g (s::string). if g = a_xlsx then sales_table else c_sales_table"
  have nm: "name a_xlsx = ''a.xlsx''" "name c_xlsx = ''c.xlsx''" "c_xlsx \<noteq> a_xlsx"
    by (simp_all add: a_xlsx_def c_xlsx_def)
  have sel: "?sel (name a_xlsx) = Some ([''Sales''] @ ''Totals'' # [''Costs''])"
    by (simp add: nm)
  have before: "\<forall>s\<in>set [''Sales'']. example_read_excel a_xlsx (Some s) = Inr (?sheet_of a_xlsx s)"
    by (simp add: example_read_excel_def)
  have bad: "example_read_excel a_xlsx (Some ''Totals'') =
      Inl (ValueError (''Worksheet named '' @ [CHR 0x27] @ ''Totals'' @ [CHR 0x27] @ '' not found''))"
    by (simp add: example_read_excel_def)
  have earlier: "\<forall>g\<in>set []. \<forall>s\<in>set (sheets_of ?sel (name g)).
      example_read_excel g (Some s) = Inr (?sheet_of g s)"
    by simp
  have c_reads: "example_read_excel c_xlsx (Some ''Sales'') = Inr c_sales_table"
    by (simp add: example_read_excel_def nm)
  then have later: "\<forall>g\<in>set [c_xlsx]. \<forall>s\<in>set (sheets_of ?sel (name g)).
      example_read_excel g (Some s) = Inr (?sheet_of g s)"
    by (simp add: sheets_of_def nm)
  have frames: "foldl pd_concat DataFrame_empty
      [tagged_sheet sales_table a_xlsx ''Sales'', tagged_sheet c_sales_table c_xlsx ''Sales''] =
      \<lparr>columns = [''X'', ''Filename'', ''Sheet Name'', ''W''],
       rows = [[Num 10, Str ''a.xlsx'', Str ''Sales'', Null],
               [Num 30, Str ''c.xlsx'', Str ''Sales'', Num 31],
               [Num 32, Str ''c.xlsx'', Str ''Sales'', Num 33]]\<rparr>"
    by (simp add: tagged_sheet_def nm sales_table_def c_sales_table_def setitem_def pd_concat_def
        DataFrame_empty_def reindex_def get_cell_def Let_def)
  have run: "consolidate_sheets example_read_excel ([] @ a_xlsx # [c_xlsx]) ?sel =
      (foldl pd_concat DataFrame_empty
         [tagged_sheet sales_table a_xlsx ''Sales'', tagged_sheet c_sales_table c_xlsx ''Sales''],
       [sheets_except a_xlsx (ValueError (''Worksheet named '' @ [CHR 0x27] @ ''Totals'' @
          [CHR 0x27] @ '' not found''))])"
    using sheet_failure_ends_its_file_only
      [where sheet_of = ?sheet_of and read_excel = example_read_excel and selected_sheets = ?sel
         and f = a_xlsx and before = "[''Sales'']" and bad = "''Totals''" and rest = "[''Costs'']"
         and earlier = "[]" and later = "[c_xlsx]", OF sel before bad earlier later]
    by (simp add: sheets_of_def nm)
  show ?thesis
    using run by (simp add: frames [simplified] sel bad c_reads nm example_read_excel_def)
qed

section \<open>A source column with a provenance label\<close>

lemma files_loop_read_as:
  "files_read_as read_csv read_excel file_type fs table_of \<Longrightarrow>
   files_loop read_csv read_excel file_type fs (data, out) =
     (foldl pd_concat data (map (\<lambda>f. setitem (table_of f) ''Filename'' (Str (name f))) fs), out)"
  by (induction fs arbitrary: data) (auto simp: files_read_as_def files_body_def)

lemma sheets_loop_read_as:
  assumes "sheets_read_as read_excel selected_sheets gs sheet_of"
  shows "sheets_loop read_excel selected_sheets gs (data, out) =
     (foldl pd_concat data
        (concat (map (\<lambda>g. map (\<lambda>s. tagged_sheet (sheet_of g s) g s)
                              (sheets_of selected_sheets (name g))) gs)), out)"
proof -
  from assms have "\<forall>g\<in>set gs. \<forall>s\<in>set (sheets_of selected_sheets (name g)).
      read_excel g (Some s) = Inr (sheet_of g s)"
    by (simp add: sheets_read_as_def list_all_iff)
  then show ?thesis
    by (rule sheets_loop_all_valid)
qed

text \<open>
  Claim C10. Take any list of files that are all read without error, with either file type,
  whatever columns their frames have. In the consolidated frame the \<open>Filename\<close> cells hold,
  row by row, the name of the file the row came from, also where the source frame had a
  \<open>Filename\<close> column of its own: every cell of that column is overwritten. The labels of the
  result are those of the sources and \<open>Filename\<close>, each once when no source repeats a label:
  a source that has the label already gets no further column for the provenance. And the
  source data under that label is lost: a second run on sources that differ from the first
  at most in what they hold under \<open>Filename\<close> gives the same result. The same holds in sheet
  mode, for any list of files and any selection whose sheets are all read without error:
  the \<open>Sheet Name\<close> cells hold the sheet names and the \<open>Filename\<close> cells the file names, the
  labels are those of the sources and the two provenance labels, and sources that differ at
  most under \<open>Sheet Name\<close> give the same result.
\<close>

theorem provenance_overwrites_existing_column:
  "(files_read_as read_csv read_excel file_type file_list table_of \<longrightarrow>
      column (fst (consolidate_files read_csv read_excel file_list file_type)) ''Filename'' =
        concat (map (\<lambda>f. replicate (length (rows (table_of f))) (Str (name f))) file_list)
    \<and> set (columns (fst (consolidate_files read_csv read_excel file_list file_type))) =
        (\<Union>f\<in>set file_list. insert ''Filename'' (set (columns (table_of f))))
    \<and> (list_all (\<lambda>f. distinct (columns (table_of f))) file_list \<longrightarrow>
        distinct (columns (fst (consolidate_files read_csv read_excel file_list file_type))))
    \<and> (files_read_as read_csv' read_excel' file_type file_list table_of' \<and>
       list_all (\<lambda>f. same_but_for ''Filename'' (table_of' f) (table_of f)) file_list \<longrightarrow>
        consolidate_files read_csv' read_excel' file_list file_type =
        consolidate_files read_csv read_excel file_list file_type))
   \<and> (sheets_read_as read_excel selected_sheets file_list sheet_of \<longrightarrow>
      column (fst (consolidate_sheets read_excel file_list selected_sheets)) ''Sheet Name'' =
        concat (map (\<lambda>f. concat (map (\<lambda>s. replicate (length (rows (sheet_of f s))) (Str s))
                                      (sheets_of selected_sheets (name f)))) file_list)
    \<and> column (fst (consolidate_sheets read_excel file_list selected_sheets)) ''Filename'' =
        concat (map (\<lambda>f. concat (map (\<lambda>s. replicate (length (rows (sheet_of f s))) (Str (name f)))
                                      (sheets_of selected_sheets (name f)))) file_list)
    \<and> set (columns (fst (consolidate_sheets read_excel file_list selected_sheets))) =
        (\<Union>f\<in>set file_list. \<Union>s\<in>set (sheets_of selected_sheets (name f)).
           insert ''Filename'' (insert ''Sheet Name'' (set (columns (sheet_of f s)))))
    \<and> (list_all (\<lambda>f. list_all (\<lambda>s. distinct (columns (sheet_of f s)))
                            (sheets_of selected_sheets (name f))) file_list \<longrightarrow>
        distinct (columns (fst (consolidate_sheets read_excel file_list selected_sheets))))
    \<and> (sheets_read_as read_excel' selected_sheets file_list sheet_of' \<and>
       list_all (\<lambda>f. list_all (\<lambda>s. same_but_for ''Sheet Name'' (sheet_of' f s) (sheet_of f s))
                           (sheets_of selected_sheets (name f))) file_list \<longrightarrow>
        consolidate_sheets read_excel' file_list selected_sheets =
        consolidate_sheets read_excel file_list selected_sheets))"
proof (intro conjI impI)
  let ?named = "\<lambda>f. setitem (table_of f) ''Filename'' (Str (name f))"
  assume reads: "files_read_as read_csv read_excel file_type file_list table_of"
  then have run: "consolidate_files read_csv read_excel file_list file_type =
      (foldl pd_concat DataFrame_empty (map ?named file_list), [])"
    by (simp add: consolidate_files_def files_loop_read_as)
  from reads have al: "\<forall>f\<in>set file_list. aligned (table_of f)"
    by (simp add: files_read_as_def list_all_iff)
  then have names: "map (\<lambda>f. column (?named f) ''Filename'') file_list =
      map (\<lambda>f. replicate (length (rows (table_of f))) (Str (name f))) file_list"
    by (simp add: column_setitem)
  have none: "column DataFrame_empty c = []" "columns DataFrame_empty = []" for c
    by (simp_all add: column_def DataFrame_empty_def)
  show "column (fst (consolidate_files read_csv read_excel file_list file_type)) ''Filename'' =
      concat (map (\<lambda>f. replicate (length (rows (table_of f))) (Str (name f))) file_list)"
    by (simp add: run column_foldl_pd_concat comp_def names none)
  show "set (columns (fst (consolidate_files read_csv read_excel file_list file_type))) =
      (\<Union>f\<in>set file_list. insert ''Filename'' (set (columns (table_of f))))"
    by (simp add: run set_columns_foldl_pd_concat set_columns_setitem none)
  show "distinct (columns (fst (consolidate_files read_csv read_excel file_list file_type)))"
    if "list_all (\<lambda>f. distinct (columns (table_of f))) file_list"
    using that
    by (simp add: run distinct_columns_foldl_pd_concat distinct_columns_setitem none list_all_iff)
  show "consolidate_files read_csv' read_excel' file_list file_type =
      consolidate_files read_csv read_excel file_list file_type"
    if other: "files_read_as read_csv' read_excel' file_type file_list table_of' \<and>
       list_all (\<lambda>f. same_but_for ''Filename'' (table_of' f) (table_of f)) file_list"
  proof -
    from other have run': "consolidate_files read_csv' read_excel' file_list file_type =
        (foldl pd_concat DataFrame_empty
           (map (\<lambda>f. setitem (table_of' f) ''Filename'' (Str (name f))) file_list), [])"
      by (simp add: consolidate_files_def files_loop_read_as)
    from other have al': "\<forall>f\<in>set file_list. aligned (table_of' f)"
      by (simp add: files_read_as_def list_all_iff)
    from other have same: "\<forall>f\<in>set file_list. same_but_for ''Filename'' (table_of' f) (table_of f)"
      by (simp add: list_all_iff)
    have "map (\<lambda>f. setitem (table_of' f) ''Filename'' (Str (name f))) file_list =
        map ?named file_list"
      using same al al' by (auto intro!: setitem_same_but_for)
    then show ?thesis
      by (simp only: run run')
  qed
next
  let ?tagged = "\<lambda>f. map (\<lambda>s. tagged_sheet (sheet_of f s) f s) (sheets_of selected_sheets (name f))"
  assume reads: "sheets_read_as read_excel selected_sheets file_list sheet_of"
  then have run: "consolidate_sheets read_excel file_list selected_sheets =
      (foldl pd_concat DataFrame_empty (concat (map ?tagged file_list)), [])"
    by (simp add: consolidate_sheets_def sheets_loop_read_as)
  from reads have al: "\<forall>f\<in>set file_list. \<forall>s\<in>set (sheets_of selected_sheets (name f)).
      aligned (sheet_of f s)"
    by (simp add: sheets_read_as_def list_all_iff)
  have none: "column DataFrame_empty c = []" "columns DataFrame_empty = []" for c
    by (simp_all add: column_def DataFrame_empty_def)
  from al have sheet_names:
    "map (\<lambda>f. concat (map (\<lambda>s. column (tagged_sheet (sheet_of f s) f s) ''Sheet Name'')
                          (sheets_of selected_sheets (name f)))) file_list =
      map (\<lambda>f. concat (map (\<lambda>s. replicate (length (rows (sheet_of f s))) (Str s))
                            (sheets_of selected_sheets (name f)))) file_list"
    by (auto simp: column_tagged_sheet intro!: arg_cong [where f = concat])
  from al have file_names:
    "map (\<lambda>f. concat (map (\<lambda>s. column (tagged_sheet (sheet_of f s) f s) ''Filename'')
                          (sheets_of selected_sheets (name f)))) file_list =
      map (\<lambda>f. concat (map (\<lambda>s. replicate (length (rows (sheet_of f s))) (Str (name f)))
                            (sheets_of selected_sheets (name f)))) file_list"
    by (auto simp: column_tagged_sheet intro!: arg_cong [where f = concat])
  show "column (fst (consolidate_sheets read_excel file_list selected_sheets)) ''Sheet Name'' =
      concat (map (\<lambda>f. concat (map (\<lambda>s. replicate (length (rows (sheet_of f s))) (Str s))
                                    (sheets_of selected_sheets (name f)))) file_list)"
    by (simp only: run fst_conv column_foldl_pd_concat none append_Nil concat_map_concat
        map_map comp_def sheet_names)
  show "column (fst (consolidate_sheets read_excel file_list selected_sheets)) ''Filename'' =
      concat (map (\<lambda>f. concat (map (\<lambda>s. replicate (length (rows (sheet_of f s))) (Str (name f)))
                                    (sheets_of selected_sheets (name f)))) file_list)"
    by (simp only: run fst_conv column_foldl_pd_concat none append_Nil concat_map_concat
        map_map comp_def file_names)
  show "set (columns (fst (consolidate_sheets read_excel file_list selected_sheets))) =
      (\<Union>f\<in>set file_list. \<Union>s\<in>set (sheets_of selected_sheets (name f)).
         insert ''Filename'' (insert ''Sheet Name'' (set (columns (sheet_of f s)))))"
    by (simp add: run set_columns_foldl_pd_concat set_columns_tagged_sheet none)
  show "distinct (columns (fst (consolidate_sheets read_excel file_list selected_sheets)))"
    if "list_all (\<lambda>f. list_all (\<lambda>s. distinct (columns (sheet_of f s)))
                          (sheets_of selected_sheets (name f))) file_list"
    using that
    by (auto simp: run none list_all_iff intro!: distinct_columns_foldl_pd_concat
        distinct_columns_tagged_sheet)
  show "consolidate_sheets read_excel' file_list selected_sheets =
      consolidate_sheets read_excel file_list selected_sheets"
    if other: "sheets_read_as read_excel' selected_sheets file_list sheet_of' \<and>
       list_all (\<lambda>f. list_all (\<lambda>s. same_but_for ''Sheet Name'' (sheet_of' f s) (sheet_of f s))
                           (sheets_of selected_sheets (name f))) file_list"
  proof -
    from other have run': "consolidate_sheets read_excel' file_list selected_sheets =
        (foldl pd_concat DataFrame_empty
           (concat (map (\<lambda>f. map (\<lambda>s. tagged_sheet (sheet_of' f s) f s)
                                   (sheets_of selected_sheets (name f))) file_list)), [])"
      by (simp add: consolidate_sheets_def sheets_loop_read_as)
    from other have al': "\<forall>f\<in>set file_list. \<forall>s\<in>set (sheets_of selected_sheets (name f)).
        aligned (sheet_of' f s)"
      by (simp add: sheets_read_as_def list_all_iff)
    from other have same: "\<forall>f\<in>set file_list. \<forall>s\<in>set (sheets_of selected_sheets (name f)).
        same_but_for ''Sheet Name'' (sheet_of' f s) (sheet_of f s)"
      by (simp add: list_all_iff)
    have "map (\<lambda>f. map (\<lambda>s. tagged_sheet (sheet_of' f s) f s) (sheets_of selected_sheets (name f)))
        file_list = map ?tagged file_list"
      using same al al' by (auto intro!: tagged_sheet_same_but_for)
    then show ?thesis
      by (simp only: run run')
  qed
qed

theorem provenance_overwrites_existing_column_witness:
  "files_read_as example_read_csv example_read_excel ''csv'' [f1_csv, tagged_csv] example_table_of
   \<and> list_all (\<lambda>f. distinct (columns (example_table_of f))) [f1_csv, tagged_csv]
   \<and> files_read_as renamed_read_csv example_read_excel ''csv'' [f1_csv, tagged_csv] renamed_table_of
   \<and> list_all (\<lambda>f. same_but_for ''Filename'' (renamed_table_of f) (example_table_of f))
        [f1_csv, tagged_csv]
   \<and> column (fst (consolidate_files example_read_csv example_read_excel [f1_csv, tagged_csv] ''csv''))
        ''Filename'' = [Str ''f1.csv'', Str ''f1.csv'', Str ''t.csv'']
   \<and> set (columns (fst (consolidate_files example_read_csv example_read_excel
                            [f1_csv, tagged_csv] ''csv''))) =
        {''X'', ''Y'', ''Filename'', ''Sheet Name''}
   \<and> distinct (columns (fst (consolidate_files example_read_csv example_read_excel
                                 [f1_csv, tagged_csv] ''csv'')))
   \<and> consolidate_files renamed_read_csv example_read_excel [f1_csv, tagged_csv] ''csv'' =
      consolidate_files example_read_csv example_read_excel [f1_csv, tagged_csv] ''csv''
   \<and> sheets_read_as example_read_excel example_selection [a_xlsx, c_xlsx] example_sheet_of
   \<and> list_all (\<lambda>f. list_all (\<lambda>s. distinct (columns (example_sheet_of f s)))
                         (sheets_of example_selection (name f))) [a_xlsx, c_xlsx]
   \<and> sheets_read_as resheeted_read_excel example_selection [a_xlsx, c_xlsx] resheeted_sheet_of
   \<and> list_all (\<lambda>f. list_all (\<lambda>s. same_but_for ''Sheet Name'' (resheeted_sheet_of f s)
                                   (example_sheet_of f s))
                         (sheets_of example_selection (name f))) [a_xlsx, c_xlsx]
   \<and> column (fst (consolidate_sheets example_read_excel [a_xlsx, c_xlsx] example_selection))
        ''Sheet Name'' = [Str ''Sales'', Str ''Log'', Str ''Sales'', Str ''Sales'']
   \<and> column (fst (consolidate_sheets example_read_excel [a_xlsx, c_xlsx] example_selection))
        ''Filename'' = [Str ''a.xlsx'', Str ''a.xlsx'', Str ''c.xlsx'', Str ''c.xlsx'']
   \<and> set (columns (fst (consolidate_sheets example_read_excel [a_xlsx, c_xlsx] example_selection))) =
        {''X'', ''W'', ''Filename'', ''Sheet Name''}
   \<and> distinct (columns (fst (consolidate_sheets example_read_excel [a_xlsx, c_xlsx]
                                 example_selection)))
   \<and> consolidate_sheets resheeted_read_excel [a_xlsx, c_xlsx] example_selection =
      consolidate_sheets example_read_excel [a_xlsx, c_xlsx] example_selection"
proof -
  note files = f1_csv_def f2_csv_def tagged_csv_def a_xlsx_def c_xlsx_def
  note tables = f1_table_def tagged_table_def renamed_table_def resheeted_table_def
    sales_table_def c_sales_table_def
  have r1: "files_read_as example_read_csv example_read_excel ''csv'' [f1_csv, tagged_csv]
      example_table_of"
    by (simp add: files_read_as_def example_read_csv_def example_table_of_def files tables
        aligned_def)
  have d1: "list_all (\<lambda>f. distinct (columns (example_table_of f))) [f1_csv, tagged_csv]"
    by (simp add: example_table_of_def files tables)
  have r1': "files_read_as renamed_read_csv example_read_excel ''csv'' [f1_csv, tagged_csv]
      renamed_table_of"
    by (simp add: files_read_as_def renamed_read_csv_def renamed_table_of_def example_read_csv_def
        example_table_of_def files tables aligned_def)
  have s1: "list_all (\<lambda>f. same_but_for ''Filename'' (renamed_table_of f) (example_table_of f))
      [f1_csv, tagged_csv]"
    by (simp add: same_but_for_def renamed_table_of_def example_table_of_def files tables
        setitem_def)
  have r2: "sheets_read_as example_read_excel example_selection [a_xlsx, c_xlsx] example_sheet_of"
    by (simp add: sheets_read_as_def example_selection_def sheets_of_def example_read_excel_def
        example_sheet_of_def files tables aligned_def)
  have d2: "list_all (\<lambda>f. list_all (\<lambda>s. distinct (columns (example_sheet_of f s)))
      (sheets_of example_selection (name f))) [a_xlsx, c_xlsx]"
    by (simp add: example_selection_def sheets_of_def example_sheet_of_def files tables)
  have r2': "sheets_read_as resheeted_read_excel example_selection [a_xlsx, c_xlsx]
      resheeted_sheet_of"
    by (simp add: sheets_read_as_def example_selection_def sheets_of_def resheeted_read_excel_def
        resheeted_sheet_of_def example_read_excel_def example_sheet_of_def files tables aligned_def)
  have s2: "list_all (\<lambda>f. list_all (\<lambda>s. same_but_for ''Sheet Name'' (resheeted_sheet_of f s)
      (example_sheet_of f s)) (sheets_of example_selection (name f))) [a_xlsx, c_xlsx]"
    by (simp add: same_but_for_def example_selection_def sheets_of_def resheeted_sheet_of_def
        example_sheet_of_def files tables setitem_def)
  note in_files = provenance_overwrites_existing_column
    [where read_csv = example_read_csv and read_excel = example_read_excel
       and file_type = "''csv''" and file_list = "[f1_csv, tagged_csv]"
       and table_of = example_table_of and read_csv' = renamed_read_csv
       and read_excel' = example_read_excel and table_of' = renamed_table_of,
     THEN conjunct1, THEN mp, OF r1]
  have names: "name f1_csv = ''f1.csv''" "name tagged_csv = ''t.csv''"
      "name a_xlsx = ''a.xlsx''" "name c_xlsx = ''c.xlsx''"
      "tagged_csv \<noteq> f1_csv" "tagged_csv \<noteq> f2_csv" "c_xlsx \<noteq> a_xlsx"
    by (simp_all add: files)
  have f1: "column (fst (consolidate_files example_read_csv example_read_excel
        [f1_csv, tagged_csv] ''csv'')) ''Filename'' = [Str ''f1.csv'', Str ''f1.csv'', Str ''t.csv'']"
    using in_files [THEN conjunct1]
    by (simp add: example_table_of_def names tables)
  have f2: "set (columns (fst (consolidate_files example_read_csv example_read_excel
        [f1_csv, tagged_csv] ''csv''))) = {''X'', ''Y'', ''Filename'', ''Sheet Name''}"
    using in_files [THEN conjunct2, THEN conjunct1]
    by (simp add: example_table_of_def names tables insert_commute)
  have f3: "distinct (columns (fst (consolidate_files example_read_csv example_read_excel
        [f1_csv, tagged_csv] ''csv'')))"
    by (rule in_files [THEN conjunct2, THEN conjunct2, THEN conjunct1, THEN mp, OF d1])
  have f4: "consolidate_files renamed_read_csv example_read_excel [f1_csv, tagged_csv] ''csv'' =
      consolidate_files example_read_csv example_read_excel [f1_csv, tagged_csv] ''csv''"
    by (rule in_files [THEN conjunct2, THEN conjunct2, THEN conjunct2, THEN mp,
          OF conjI [OF r1' s1]])
  note in_sheets = provenance_overwrites_existing_column
    [where read_excel = example_read_excel and selected_sheets = example_selection
       and file_list = "[a_xlsx, c_xlsx]" and sheet_of = example_sheet_of
       and read_excel' = resheeted_read_excel and sheet_of' = resheeted_sheet_of,
     THEN conjunct2, THEN mp, OF r2]
  have picked: "sheets_of example_selection ''a.xlsx'' = [''Sales'', ''Log'']"
      "sheets_of example_selection ''c.xlsx'' = [''Sales'']"
    by (simp_all add: example_selection_def sheets_of_def)
  have g1: "column (fst (consolidate_sheets example_read_excel [a_xlsx, c_xlsx]
        example_selection)) ''Sheet Name'' = [Str ''Sales'', Str ''Log'', Str ''Sales'', Str ''Sales'']"
    using in_sheets [THEN conjunct1]
    by (simp add: picked example_sheet_of_def names tables)
  have g2: "column (fst (consolidate_sheets example_read_excel [a_xlsx, c_xlsx] example_selection))
        ''Filename'' = [Str ''a.xlsx'', Str ''a.xlsx'', Str ''c.xlsx'', Str ''c.xlsx'']"
    using in_sheets [THEN conjunct2, THEN conjunct1]
    by (simp add: picked example_sheet_of_def names tables)
  have g3: "set (columns (fst (consolidate_sheets example_read_excel [a_xlsx, c_xlsx]
        example_selection))) = {''X'', ''W'', ''Filename'', ''Sheet Name''}"
    using in_sheets [THEN conjunct2, THEN conjunct2, THEN conjunct1]
    by (simp add: picked example_sheet_of_def names tables insert_commute)
  have g4: "distinct (columns (fst (consolidate_sheets example_read_excel [a_xlsx, c_xlsx]
        example_selection)))"
    by (rule in_sheets [THEN conjunct2, THEN conjunct2, THEN conjunct2, THEN conjunct1, THEN mp,
          OF d2])
  have g5: "consolidate_sheets resheeted_read_excel [a_xlsx, c_xlsx] example_selection =
      consolidate_sheets example_read_excel [a_xlsx, c_xlsx] example_selection"
    by (rule in_sheets [THEN conjunct2, THEN conjunct2, THEN conjunct2, THEN conjunct2, THEN mp,
          OF conjI [OF r2' s2]])
  from r1 d1 r1' s1 f1 f2 f3 f4 r2 d2 r2' s2 g1 g2 g3 g4 g5 show ?thesis
    by (intro conjI)
qed

section \<open>Manual picks and search matches\<close>





section \<open>An empty search term\<close>

lemma filtered_sheets_empty_term: "filtered_sheets [] sheet_names = sheet_names"
  by (simp add: filtered_sheets_def lower_def)

text \<open>
  Claim C6, as stated, fails: the filter of line 186 with an empty term does not return the
  empty list.
\<close>

theorem empty_term_filter_counterexample:
  "filtered_sheets '''' [''Sales'', ''Costs''] \<noteq> []"
  by (simp add: filtered_sheets_def lower_def)

text \<open>
  Claim C6, amended. With an empty search term the filter keeps every sheet name, since the
  empty string occurs in every name; the automatic selection is behind the gate of line 193,
  which an empty term does not pass. So no sheet is selected automatically: the selection is
  left as the manual picks made it, and that selection is what is consolidated.
\<close>

theorem empty_term_selects_nothing:
  "filtered_sheets [] sheet_names = sheet_names
   \<and> merge_selected [] global_matching_sheets selected_sheets = selected_sheets
   \<and> (scan_files sheet_names_of multiselect [] uploaded_files (session, []) =
        Inr (selected_sheets, global_matching_sheets) \<longrightarrow>
      sheet_mode sheet_names_of multiselect read_excel [] output_file_name uploaded_files session =
        Inr (selected_sheets,
             if uploaded_files = [] then []
             else total_uploaded uploaded_files #
               snd (consolidate_sheets read_excel uploaded_files
                      (mapped_sheets uploaded_files selected_sheets)) @
               show_result ''Consolidated Data from Sheets:'' output_file_name
                 (fst (consolidate_sheets read_excel uploaded_files
                         (mapped_sheets uploaded_files selected_sheets)))))"
  by (auto simp: filtered_sheets_empty_term merge_selected_def sheet_mode_def split: prod.splits)

theorem empty_term_selects_nothing_witness:
  "scan_files example_sheet_names pick_sales [] [a_xlsx] (Map.empty, []) =
     Inr ([''a.xlsx'' \<mapsto> [''Sales'']],
          [(''a.xlsx'', ''Sales''), (''a.xlsx'', ''Costs''), (''a.xlsx'', ''Log'')])
   \<and> sheet_mode example_sheet_names pick_sales example_read_excel [] ''consolidated'' [a_xlsx]
       Map.empty =
     Inr ([''a.xlsx'' \<mapsto> [''Sales'']],
          [st_write ''Total uploaded files: 1'',
           st_write ''Consolidated Data from Sheets:'',
           st_dataframe \<lparr>columns = [''X'', ''Filename'', ''Sheet Name''],
                          rows = [[Num 10, Str ''a.xlsx'', Str ''Sales'']]\<rparr>,
           st_download_button ''Download Consolidated File''
             \<lparr>columns = [''X'', ''Filename'', ''Sheet Name''],
              rows = [[Num 10, Str ''a.xlsx'', Str ''Sales'']]\<rparr>
             ''consolidated.xlsx''])"
proof -
  have scan: "scan_files example_sheet_names pick_sales [] [a_xlsx] (Map.empty, []) =
     Inr ([''a.xlsx'' \<mapsto> [''Sales'']],
          [(''a.xlsx'', ''Sales''), (''a.xlsx'', ''Costs''), (''a.xlsx'', ''Log'')])"
    by (simp add: example_sheet_names_def pick_sales_def filtered_sheets_empty_term a_xlsx_def)
  have run: "consolidate_sheets example_read_excel [a_xlsx]
       (mapped_sheets [a_xlsx] [''a.xlsx'' \<mapsto> [''Sales'']]) =
     (\<lparr>columns = [''X'', ''Filename'', ''Sheet Name''],
       rows = [[Num 10, Str ''a.xlsx'', Str ''Sales'']]\<rparr>, [])"
    by (simp add: mapped_sheets_def consolidate_sheets_def sheets_body_def example_read_excel_def
        a_xlsx_def sales_table_def tagged_sheet_def setitem_def pd_concat_def DataFrame_empty_def
        reindex_def get_cell_def Let_def)
  have total: "total_uploaded [a_xlsx] = st_write ''Total uploaded files: 1''"
    by (simp add: total_uploaded_def str_nat.simps [of "Suc 0"])
  show ?thesis
    using scan empty_term_selects_nothing
      [where sheet_names_of = example_sheet_names and multiselect = pick_sales
         and uploaded_files = "[a_xlsx]" and session = Map.empty
         and selected_sheets = "[''a.xlsx'' \<mapsto> [''Sales'']]"
         and global_matching_sheets =
           "[(''a.xlsx'', ''Sales''), (''a.xlsx'', ''Costs''), (''a.xlsx'', ''Log'')]"
         and read_excel = example_read_excel and output_file_name = "''consolidated''"]
    by (simp add: run total show_result_def df_empty_def)
qed

end
